theory Spec2Isabelle
  imports Main "HOL-Library.Word"
begin

section \<open>The image value type of awareutils.vision.img\<close>

text \<open>
  The module wraps one pixel source (a numpy array in BGR or RGB channel order, or a
  PIL image) together with an optional metadata record, converts between the three
  forms on demand, and stores the metadata in the EXIF UserComment field of the saved
  file. Every method of \<^verbatim>\<open>Img\<close> that the properties below are about is embedded
  here as a function of the same name (prefixed with \<open>Img_\<close>), with
  \<^item> every \<^verbatim>\<open>raise\<close> as an \<open>Inl\<close> result,
  \<^item> the file system and the encoder invocations as an explicit \<open>world\<close> that
    \<open>Img_save\<close> returns updated and \<open>Img_open\<close> reads,
  \<^item> the third-party libraries (numpy, cv2, PIL, piexif, json) as collaborators:
    their in-memory pixel operations are given by their documented meaning, their
    serialisers and file codecs are parameters of the embedding.
\<close>

subsection \<open>Python values, errors\<close>

type_synonym bytes = string

datatype error =
    RuntimeError string
  | ValueError string
  | KeyError string
  | TypeError string
  | FileNotFoundError string
  | LibraryError string

definition bind_err :: "error + 'a \<Rightarrow> ('a \<Rightarrow> error + 'b) \<Rightarrow> error + 'b" where
  "bind_err m f = (case m of Inl e \<Rightarrow> Inl e | Inr x \<Rightarrow> f x)"

text \<open>Values that travel in \<^verbatim>\<open>**kwargs\<close> and in the \<^verbatim>\<open>info\<close> dictionary of a PIL image.\<close>

datatype pyval = PyBytes bytes | PyBool bool | PyInt int | PyStr string

type_synonym kwargs = "string \<rightharpoonup> pyval"

text \<open>
  The \<^verbatim>\<open>path\<close> argument is checked with \<^verbatim>\<open>isinstance(path, (Path, str))\<close> and then
  turned into a string with \<^verbatim>\<open>str(path)\<close>.
\<close>

datatype py_path = Path string | Str string | NotPathOrStr

fun is_Path_or_str :: "py_path \<Rightarrow> bool" where
  "is_Path_or_str (Path s) = True"
| "is_Path_or_str (Str s) = True"
| "is_Path_or_str NotPathOrStr = False"

fun str_path :: "py_path \<Rightarrow> string" where
  "str_path (Path s) = s"
| "str_path (Str s) = s"
| "str_path NotPathOrStr = ''''"

text \<open>
  Dictionary subscription \<^verbatim>\<open>d[k]\<close> raises \<^verbatim>\<open>KeyError\<close> on a missing key; the third
  argument is the key as the exception shows it.
\<close>

definition dict_getitem :: "('k \<times> 'v) list \<Rightarrow> 'k \<Rightarrow> string \<Rightarrow> error + 'v" where
  "dict_getitem d k shown = (case map_of d k of None \<Rightarrow> Inl (KeyError shown) | Some v \<Rightarrow> Inr v)"

subsection \<open>Pixel buffers and PIL images\<close>

text \<open>
  A pixel holds three 8-bit channels, indexed 0, 1, 2 on the last axis. An array has
  its shape (axis 0 is the height, axis 1 the width), its rows of pixels and the
  \<^verbatim>\<open>flags.c_contiguous\<close> flag. Other channel counts and depths are outside the model.
\<close>

type_synonym pixel = "8 word \<times> 8 word \<times> 8 word"

record ndarray =
  shape_h :: nat
  shape_w :: nat
  px :: "pixel list list"
  c_contiguous :: bool

record pil_image =
  pil_height :: nat
  pil_width :: nat
  pil_pixels :: "pixel list list"
  pil_info :: "string \<rightharpoonup> pyval"

datatype py_source = Ndarray ndarray | PILImage pil_image | PyObject

text \<open>
  \<^verbatim>\<open>np.ascontiguousarray\<close> and \<^verbatim>\<open>ndarray.copy\<close> keep shape and values and give a
  C-contiguous array; \<^verbatim>\<open>np.array(pil)\<close> reads the pixels of an RGB image;
  \<^verbatim>\<open>PIL.Image.fromarray\<close> builds an image, with an empty \<^verbatim>\<open>info\<close>, from an array.
\<close>

definition ascontiguousarray :: "ndarray \<Rightarrow> ndarray" where
  "ascontiguousarray a = a\<lparr>c_contiguous := True\<rparr>"

definition ndarray_copy :: "ndarray \<Rightarrow> ndarray" where
  "ndarray_copy a = a\<lparr>c_contiguous := True\<rparr>"

definition np_array :: "pil_image \<Rightarrow> ndarray" where
  "np_array im =
     \<lparr>shape_h = pil_height im, shape_w = pil_width im, px = pil_pixels im, c_contiguous = True\<rparr>"

definition Image_fromarray :: "ndarray \<Rightarrow> pil_image" where
  "Image_fromarray a =
     \<lparr>pil_height = shape_h a, pil_width = shape_w a, pil_pixels = px a, pil_info = Map.empty\<rparr>"

text \<open>
  \<^verbatim>\<open>cv2.cvtColor\<close> with \<^verbatim>\<open>COLOR_BGR2RGB\<close> or \<^verbatim>\<open>COLOR_RGB2BGR\<close> exchanges
  channels 0 and 2 of every pixel and returns a new contiguous array.
\<close>

datatype ColorConversionCode = COLOR_BGR2RGB | COLOR_RGB2BGR

definition swap_channels :: "pixel \<Rightarrow> pixel" where
  "swap_channels p = (case p of (c0, c1, c2) \<Rightarrow> (c2, c1, c0))"

definition cvtColor :: "ndarray \<Rightarrow> ColorConversionCode \<Rightarrow> ndarray" where
  "cvtColor src code =
     (case code of
        COLOR_BGR2RGB \<Rightarrow>
          \<lparr>shape_h = shape_h src, shape_w = shape_w src,
           px = map (map swap_channels) (px src), c_contiguous = True\<rparr>
      | COLOR_RGB2BGR \<Rightarrow>
          \<lparr>shape_h = shape_h src, shape_w = shape_w src,
           px = map (map swap_channels) (px src), c_contiguous = True\<rparr>)"

text \<open>
  \<^verbatim>\<open>PIL.Image.crop((left, upper, right, lower))\<close> returns a new image of size
  \<open>(right - left, lower - upper)\<close> that keeps \<^verbatim>\<open>info\<close>; pixels outside the source are
  black; a box whose right (lower) edge lies before its left (upper) edge is rejected.
\<close>

definition pixel_at :: "pil_image \<Rightarrow> int \<Rightarrow> int \<Rightarrow> pixel" where
  "pixel_at im x y =
     (if 0 \<le> x \<and> 0 \<le> y \<and> nat y < length (pil_pixels im)
         \<and> nat x < length (pil_pixels im ! nat y)
      then pil_pixels im ! nat y ! nat x
      else (0, 0, 0))"

definition Image_crop :: "pil_image \<Rightarrow> int \<times> int \<times> int \<times> int \<Rightarrow> error + pil_image" where
  "Image_crop im box =
     (case box of (left, upper, right, lower) \<Rightarrow>
        if right < left then Inl (ValueError ''Coordinate right is less than left'')
        else if lower < upper then Inl (ValueError ''Coordinate lower is less than upper'')
        else Inr \<lparr>pil_height = nat (lower - upper), pil_width = nat (right - left),
                  pil_pixels =
                    map (\<lambda>j. map (\<lambda>i. pixel_at im (left + int i) (upper + int j))
                                  [0 ..< nat (right - left)])
                        [0 ..< nat (lower - upper)],
                  pil_info = pil_info im\<rparr>)"

subsection \<open>Geometry types of the package\<close>

text \<open>
  Modelled from the spec: \<^verbatim>\<open>awareutils.vision.img_size.ImgSize\<close> is not among the
  sources; it is the pair of a width and a height that \<^verbatim>\<open>_get_size\<close> builds and from
  which \<^verbatim>\<open>__init__\<close> reads \<^verbatim>\<open>.h\<close> and \<^verbatim>\<open>.w\<close>.
\<close>

record ImgSize =
  size_w :: nat
  size_h :: nat

text \<open>
  Modelled from the spec: \<^verbatim>\<open>awareutils.vision.shape.Rectangle\<close> is not among the
  sources; it carries the integer corners \<open>x0, y0, x1, y1\<close> that \<^verbatim>\<open>crop\<close> reads.
\<close>

record Rectangle =
  x0 :: int
  y0 :: int
  x1 :: int
  y1 :: int

text \<open>
  Start and stop of the Python slice \<^verbatim>\<open>[lo:hi]\<close> on an axis of length \<open>n\<close>: a negative
  bound counts from the end, and both bounds are clipped to the axis.
\<close>

definition slice_indices :: "int \<Rightarrow> int \<Rightarrow> nat \<Rightarrow> nat \<times> nat" where
  "slice_indices lo hi n =
     (let start = (if lo < 0 then max (lo + int n) 0 else min lo (int n));
          stop = (if hi < 0 then max (hi + int n) 0 else min hi (int n))
      in (nat start, nat (max start stop)))"

text \<open>
  Modelled from the spec: \<^verbatim>\<open>Rectangle.slice_array\<close> is not among the sources. The spec
  has it produce a view of the rectangular region \<open>[x0, y0]\<close> to \<open>[x1, y1]\<close>, inclusive on
  both axes; on a numpy array that is the slice \<^verbatim>\<open>arr[y0 : y1 + 1, x0 : x1 + 1]\<close>. The view
  is contiguous when it is empty, or when its parent is and it spans the full width or
  a single row.
\<close>

definition slice_array :: "Rectangle \<Rightarrow> ndarray \<Rightarrow> ndarray" where
  "slice_array r arr =
     (case slice_indices (y0 r) (y1 r + 1) (shape_h arr) of (ys, ye) \<Rightarrow>
      case slice_indices (x0 r) (x1 r + 1) (shape_w arr) of (xs, xe) \<Rightarrow>
        \<lparr>shape_h = ye - ys, shape_w = xe - xs,
         px = map (\<lambda>row. take (xe - xs) (drop xs row)) (take (ye - ys) (drop ys (px arr))),
         c_contiguous =
           (ye - ys = 0 \<or> xe - xs = 0
            \<or> (c_contiguous arr \<and> (ye - ys = 1 \<or> xe - xs = shape_w arr)))\<rparr>)"

subsection \<open>Serialisers, file codecs and the world\<close>

text \<open>
  The EXIF dictionary of piexif maps an IFD name to a dictionary from tag numbers to
  values; \<^verbatim>\<open>piexif.ExifIFD.UserComment\<close> is tag 37510.
\<close>

type_synonym exif_dict = "(string \<times> (nat \<times> bytes) list) list"

definition ExifIFD_UserComment :: nat where
  "ExifIFD_UserComment = 37510"

text \<open>
  \<^verbatim>\<open>json.dumps\<close> writes ASCII text (its default), so \<^verbatim>\<open>.encode("utf8")\<close> yields the
  same characters as bytes.
\<close>

definition encode_utf8 :: "string \<Rightarrow> bytes" where
  "encode_utf8 s = s"

text \<open>
  The collaborators whose results the module only passes on. \<open>'m\<close> is the type of
  metadata records other than \<^verbatim>\<open>None\<close>, \<open>'f\<close> the type of file contents.
  \<^item> \<open>json_dumps\<close>, \<open>json_loads\<close>: \<^verbatim>\<open>json.dumps\<close> and \<^verbatim>\<open>json.loads\<close>; the latter
    returns \<open>None\<close> for the JSON text \<^verbatim>\<open>null\<close>.
  \<^item> \<open>piexif_dump\<close>, \<open>piexif_load\<close>: \<^verbatim>\<open>piexif.dump\<close> and \<^verbatim>\<open>piexif.load\<close>.
  \<^item> \<open>pil_encode\<close>: what \<^verbatim>\<open>PIL.Image.save(path, **kwargs)\<close> writes, or its exception;
    \<open>pil_decode\<close>: what \<^verbatim>\<open>PIL.Image.open\<close> reads from a file.
  \<^item> \<open>cv2_encode\<close>: what \<^verbatim>\<open>cv2.imwrite\<close> writes (\<open>None\<close> when it returns
    \<^verbatim>\<open>False\<close> and writes nothing), or its exception; \<open>cv2_decode\<close>: what
    \<^verbatim>\<open>cv2.imread\<close> reads (\<open>None\<close> when it cannot decode).
\<close>

record ('m, 'f) collaborators =
  json_dumps :: "'m \<Rightarrow> error + string"
  json_loads :: "bytes \<Rightarrow> error + 'm option"
  piexif_dump :: "exif_dict \<Rightarrow> error + bytes"
  piexif_load :: "bytes \<Rightarrow> error + exif_dict"
  pil_encode :: "pil_image \<Rightarrow> string \<Rightarrow> kwargs \<Rightarrow> error + 'f"
  pil_decode :: "'f \<Rightarrow> error + pil_image"
  cv2_encode :: "string \<Rightarrow> ndarray \<Rightarrow> error + 'f option"
  cv2_decode :: "'f \<Rightarrow> ndarray option"

text \<open>
  The world: the files by path, and the encoder invocations made so far, each with
  the arguments it received.
\<close>

datatype encoder_call =
    Image_save_call string pil_image kwargs
  | imwrite_call string ndarray

record 'f world =
  files :: "string \<rightharpoonup> 'f"
  encoder_calls :: "encoder_call list"

definition Image_save ::
  "('m, 'f) collaborators \<Rightarrow> pil_image \<Rightarrow> string \<Rightarrow> kwargs \<Rightarrow> 'f world \<Rightarrow> error + 'f world" where
  "Image_save env im p kw wld =
     (case pil_encode env im p kw of
        Inl e \<Rightarrow> Inl e
      | Inr f \<Rightarrow>
          Inr (wld\<lparr>files := (files wld)(p \<mapsto> f),
                   encoder_calls := encoder_calls wld @ [Image_save_call p im kw]\<rparr>))"

definition imwrite ::
  "('m, 'f) collaborators \<Rightarrow> string \<Rightarrow> ndarray \<Rightarrow> 'f world \<Rightarrow> error + 'f world" where
  "imwrite env p a wld =
     (case cv2_encode env p a of
        Inl e \<Rightarrow> Inl e
      | Inr written \<Rightarrow>
          Inr (wld\<lparr>files := (case written of None \<Rightarrow> files wld | Some f \<Rightarrow> (files wld)(p \<mapsto> f)),
                   encoder_calls := encoder_calls wld @ [imwrite_call p a]\<rparr>))"

definition Image_open :: "('m, 'f) collaborators \<Rightarrow> 'f world \<Rightarrow> string \<Rightarrow> error + pil_image" where
  "Image_open env wld p =
     (case files wld p of None \<Rightarrow> Inl (FileNotFoundError p) | Some f \<Rightarrow> pil_decode env f)"

definition imread :: "('m, 'f) collaborators \<Rightarrow> 'f world \<Rightarrow> string \<Rightarrow> ndarray option" where
  "imread env wld p = (case files wld p of None \<Rightarrow> None | Some f \<Rightarrow> cv2_decode env f)"

text \<open>\<^verbatim>\<open>piexif.load\<close> applied to the value found under \<^verbatim>\<open>"exif"\<close> in \<^verbatim>\<open>info\<close>.\<close>

definition piexif_load_value :: "('m, 'f) collaborators \<Rightarrow> pyval \<Rightarrow> error + exif_dict" where
  "piexif_load_value env v =
     (case v of PyBytes b \<Rightarrow> piexif_load env b | _ \<Rightarrow> Inl (TypeError ''exif data is not bytes''))"

subsection \<open>The class Img\<close>

datatype ImgType = BGR | RGB | PIL

fun ImgType_name :: "ImgType \<Rightarrow> string" where
  "ImgType_name BGR = ''BGR''"
| "ImgType_name RGB = ''RGB''"
| "ImgType_name PIL = ''PIL''"

record 'm Img =
  source :: py_source
  itype :: ImgType
  metadata :: "'m option"
  make_arrays_contiguous :: bool
  img_size :: ImgSize
  img_h :: nat
  img_w :: nat

text \<open>
  The methods read \<^verbatim>\<open>self.source\<close> as the kind of object that \<^verbatim>\<open>self.itype\<close> announces,
  which \<^verbatim>\<open>__init__\<close> has checked. On any other object the library call they make
  raises.
\<close>

definition as_ndarray :: "py_source \<Rightarrow> error + ndarray" where
  "as_ndarray s = (case s of Ndarray a \<Rightarrow> Inr a | _ \<Rightarrow> Inl (TypeError ''not an np.ndarray''))"

definition as_image :: "py_source \<Rightarrow> error + pil_image" where
  "as_image s = (case s of PILImage im \<Rightarrow> Inr im | _ \<Rightarrow> Inl (TypeError ''not a PIL Image''))"

text \<open>\<^verbatim>\<open>_get_size\<close>, reading \<^verbatim>\<open>self.source\<close> and \<^verbatim>\<open>self.itype\<close>.\<close>

definition Img_get_size :: "py_source \<Rightarrow> ImgType \<Rightarrow> error + ImgSize" where
  "Img_get_size self_source self_itype =
     (if self_itype = PIL then
        bind_err (as_image self_source)
          (\<lambda>im. Inr \<lparr>size_w = pil_width im, size_h = pil_height im\<rparr>)
      else
        bind_err (as_ndarray self_source)
          (\<lambda>a. Inr \<lparr>size_w = shape_w a, size_h = shape_h a\<rparr>))"

text \<open>
  \<^verbatim>\<open>__init__\<close>. Its first statement stores the argument in \<^verbatim>\<open>self.source\<close>; the
  contiguity branch later rebinds the local name \<^verbatim>\<open>source\<close> (\<open>source_local\<close> below),
  which nothing reads afterwards. The \<^verbatim>\<open>logger.warn\<close> call changes no state. The final
  \<^verbatim>\<open>else\<close> of the source (an \<^verbatim>\<open>itype\<close> outside the enumeration) has no counterpart for
  the closed type \<open>ImgType\<close>.
\<close>

definition Img_init :: "py_source \<Rightarrow> ImgType \<Rightarrow> 'm option \<Rightarrow> bool \<Rightarrow> error + 'm Img" where
  "Img_init src ity meta mac =
     (let self_source = src in
      bind_err
        (if ity = PIL then
           (case src of
              PILImage im \<Rightarrow> Inr src
            | _ \<Rightarrow> Inl (RuntimeError ''Set source type to PIL but source isn't a PIL Image''))
         else
           (case src of
              Ndarray a \<Rightarrow>
                if \<not> c_contiguous a then
                  (if mac then Inr (Ndarray (ascontiguousarray a)) else Inr src)
                else Inr src
            | _ \<Rightarrow>
                Inl (RuntimeError
                      (''Set source to '' @ ImgType_name ity @ '' but isn't an np.ndarray''))))
        (\<lambda>source_local.
           bind_err (Img_get_size self_source ity)
             (\<lambda>sz. Inr \<lparr>source = self_source, itype = ity, metadata = meta,
                         make_arrays_contiguous = mac,
                         img_size = sz, img_h = size_h sz, img_w = size_w sz\<rparr>)))"



definition from_pil :: "py_source \<Rightarrow> 'm option \<Rightarrow> error + 'm Img" where
  "from_pil im meta = Img_init im PIL meta True"

text \<open>The converters \<^verbatim>\<open>rgb\<close>, \<^verbatim>\<open>bgr\<close> and \<^verbatim>\<open>pil\<close>.\<close>

definition Img_rgb :: "'m Img \<Rightarrow> error + ndarray" where
  "Img_rgb self =
     bind_err
       (if itype self = PIL then bind_err (as_image (source self)) (\<lambda>im. Inr (np_array im))
        else if itype self = RGB then as_ndarray (source self)
        else bind_err (as_ndarray (source self)) (\<lambda>a. Inr (cvtColor a COLOR_BGR2RGB)))
       (\<lambda>arr. if make_arrays_contiguous self then Inr (ascontiguousarray arr) else Inr arr)"

definition Img_bgr :: "'m Img \<Rightarrow> error + ndarray" where
  "Img_bgr self =
     bind_err
       (if itype self = PIL then
          bind_err (as_image (source self)) (\<lambda>im. Inr (cvtColor (np_array im) COLOR_RGB2BGR))
        else if itype self = RGB then
          bind_err (as_ndarray (source self)) (\<lambda>a. Inr (cvtColor a COLOR_RGB2BGR))
        else as_ndarray (source self))
       (\<lambda>arr. if make_arrays_contiguous self then Inr (ascontiguousarray arr) else Inr arr)"

definition Img_pil :: "'m Img \<Rightarrow> error + pil_image" where
  "Img_pil self =
     (if itype self = PIL then as_image (source self)
      else if itype self = RGB then
        bind_err (as_ndarray (source self))
          (\<lambda>a. Inr (Image_fromarray (ascontiguousarray a)))
      else
        bind_err (as_ndarray (source self))
          (\<lambda>a. Inr (Image_fromarray (cvtColor (ascontiguousarray a) COLOR_BGR2RGB))))"

text \<open>\<^verbatim>\<open>open\<close>: the world is only read.\<close>

definition Img_open ::
  "('m, 'f) collaborators \<Rightarrow> 'f world \<Rightarrow> py_path \<Rightarrow> ImgType \<Rightarrow> bool \<Rightarrow> error + 'm Img" where
  "Img_open env wld path ity load_metadata =
     (if \<not> is_Path_or_str path then Inl (ValueError ''path must be a Path or str'')
      else
        let p = str_path path in
        if \<not> load_metadata then
          (if ity = BGR then
             (case imread env wld p of
                None \<Rightarrow> Inl (RuntimeError ''Failed to read with cv2'')
              | Some arr \<Rightarrow> Img_init (Ndarray arr) BGR None True)
           else if ity = RGB then
             (case imread env wld p of
                None \<Rightarrow> Inl (RuntimeError ''Failed to read with cv2'')
              | Some arr \<Rightarrow> Img_init (Ndarray (cvtColor arr COLOR_BGR2RGB)) RGB None True)
           else
             bind_err (Image_open env wld p) (\<lambda>im. Img_init (PILImage im) PIL None True))
        else
          bind_err (Image_open env wld p) (\<lambda>im.
          bind_err
            (if load_metadata then
               (case pil_info im ''exif'' of
                  None \<Rightarrow> Inr None
                | Some raw \<Rightarrow>
                    bind_err (piexif_load_value env raw) (\<lambda>d.
                    bind_err (dict_getitem d ''Exif'' ''Exif'') (\<lambda>ifd.
                    bind_err (dict_getitem ifd ExifIFD_UserComment ''37510'') (\<lambda>comment.
                      json_loads env comment))))
             else Inr None)
            (\<lambda>meta.
               if ity = BGR then
                 Img_init (Ndarray (cvtColor (np_array im) COLOR_RGB2BGR)) BGR meta True
               else if ity = RGB then Img_init (Ndarray (np_array im)) RGB meta True
               else Img_init (PILImage im) PIL meta True)))"

text \<open>\<^verbatim>\<open>save\<close>: returns the world after the encoder has run, or the exception.\<close>

definition Img_save ::
  "('m, 'f) collaborators \<Rightarrow> 'm Img \<Rightarrow> py_path \<Rightarrow> bool \<Rightarrow> kwargs \<Rightarrow> 'f world
     \<Rightarrow> error + 'f world" where
  "Img_save env self path save_metadata kw wld =
     (if \<not> is_Path_or_str path then Inl (ValueError ''path must be a Path or str'')
      else
        let p = str_path path;
            should_save_metadata = (save_metadata \<and> metadata self \<noteq> None)
        in
        if itype self = PIL \<or> should_save_metadata then
          bind_err (Img_pil self) (\<lambda>im.
          bind_err
            (if should_save_metadata then
               (if kw ''exif'' \<noteq> None then
                  Inl (RuntimeError
                    ''We're saving metadata in EXIF already, so it's unsupported for you to use it too!'')
                else
                  bind_err (json_dumps env (the (metadata self))) (\<lambda>jtext.
                  bind_err
                    (piexif_dump env [(''Exif'', [(ExifIFD_UserComment, encode_utf8 jtext)])])
                    (\<lambda>exif_bytes. Inr (kw(''exif'' \<mapsto> PyBytes exif_bytes)))))
             else Inr kw)
            (\<lambda>kw1.
               let kw2 = (if kw1 ''optimize'' = None then kw1(''optimize'' \<mapsto> PyBool True)
                          else kw1)
               in Image_save env im p kw2 wld))
        else if itype self = RGB then
          bind_err (as_ndarray (source self))
            (\<lambda>a. imwrite env p (cvtColor a COLOR_RGB2BGR) wld)
        else
          bind_err (as_ndarray (source self)) (\<lambda>a. imwrite env p a wld))"

text \<open>
  \<^verbatim>\<open>crop\<close>. The new \<^verbatim>\<open>Img\<close> is built without the \<^verbatim>\<open>make_arrays_contiguous\<close> argument,
  so with its default \<^verbatim>\<open>True\<close>.
\<close>

definition Img_crop :: "'m Img \<Rightarrow> Rectangle \<Rightarrow> bool \<Rightarrow> error + 'm Img" where
  "Img_crop self rectangle copy =
     (if itype self = PIL then
        (if \<not> copy then Inl (RuntimeError ''PIL crops are always copys. I think?'')
         else
           bind_err (as_image (source self)) (\<lambda>im.
           bind_err
             (Image_crop im (x0 rectangle, y0 rectangle, x1 rectangle + 1, y1 rectangle + 1))
             (\<lambda>cropped. Img_init (PILImage cropped) (itype self) (metadata self) True)))
      else
        bind_err (as_ndarray (source self)) (\<lambda>arr.
          let sliced = slice_array rectangle arr;
              sliced_or_copy = (if copy then ndarray_copy sliced else sliced)
          in Img_init (Ndarray sliced_or_copy) (itype self) (metadata self) True))"

subsection \<open>A concrete set of collaborators and example values\<close>

text \<open>
  A small instance of the collaborators on which the theorems below are exercised.
  A metadata record is represented by its JSON text; a file holds the decoded image
  together with the EXIF bytes in its \<^verbatim>\<open>info\<close>; the EXIF bytes carry at most the
  UserComment field.
\<close>

definition ref_json_dumps :: "string \<Rightarrow> error + string" where
  "ref_json_dumps md =
     (if take 1 md = ''{'' then Inr md else Inl (TypeError ''Object is not JSON serializable''))"

definition ref_json_loads :: "bytes \<Rightarrow> error + string option" where
  "ref_json_loads b =
     (if b = ''null'' then Inr None
      else if take 1 b = ''{'' then Inr (Some b)
      else Inl (ValueError ''JSONDecodeError''))"

definition ref_piexif_dump :: "exif_dict \<Rightarrow> error + bytes" where
  "ref_piexif_dump d =
     (case map_of d ''Exif'' of
        None \<Rightarrow> Inr ''Exif:''
      | Some ifd \<Rightarrow>
          (case map_of ifd ExifIFD_UserComment of
             None \<Rightarrow> Inr ''Exif:''
           | Some c \<Rightarrow> Inr (''Exif:UC='' @ c)))"

definition ref_piexif_load :: "bytes \<Rightarrow> error + exif_dict" where
  "ref_piexif_load b =
     (if take 5 b \<noteq> ''Exif:'' then Inl (ValueError ''not EXIF data'')
      else if take 3 (drop 5 b) = ''UC='' then
        Inr [(''0th'', []), (''Exif'', [(ExifIFD_UserComment, drop 8 b)]), (''GPS'', [])]
      else Inr [(''0th'', []), (''Exif'', []), (''GPS'', [])])"

definition ref_pil_encode :: "pil_image \<Rightarrow> string \<Rightarrow> kwargs \<Rightarrow> error + pil_image" where
  "ref_pil_encode im p kw =
     Inr (im\<lparr>pil_info := (case kw ''exif'' of None \<Rightarrow> Map.empty | Some v \<Rightarrow> [''exif'' \<mapsto> v])\<rparr>)"

definition ref_pil_decode :: "pil_image \<Rightarrow> error + pil_image" where
  "ref_pil_decode f = Inr f"

definition ref_cv2_encode :: "string \<Rightarrow> ndarray \<Rightarrow> error + pil_image option" where
  "ref_cv2_encode p a = Inr (Some (Image_fromarray (cvtColor a COLOR_BGR2RGB)))"

definition ref_cv2_decode :: "pil_image \<Rightarrow> ndarray option" where
  "ref_cv2_decode f = Some (cvtColor (np_array f) COLOR_RGB2BGR)"

definition ref_collaborators :: "(string, pil_image) collaborators" where
  "ref_collaborators =
     \<lparr>json_dumps = ref_json_dumps, json_loads = ref_json_loads,
      piexif_dump = ref_piexif_dump, piexif_load = ref_piexif_load,
      pil_encode = ref_pil_encode, pil_decode = ref_pil_decode,
      cv2_encode = ref_cv2_encode, cv2_decode = ref_cv2_decode\<rparr>"

definition empty_world :: "pil_image world" where
  "empty_world = \<lparr>files = Map.empty, encoder_calls = []\<rparr>"

definition example_array :: ndarray where
  "example_array =
     \<lparr>shape_h = 2, shape_w = 2,
      px = [[(1, 2, 3), (4, 5, 6)], [(7, 8, 9), (10, 11, 12)]],
      c_contiguous = True\<rparr>"

text \<open>The first column of \<open>example_array\<close> as a view: two rows, not contiguous.\<close>

definition example_view :: ndarray where
  "example_view =
     \<lparr>shape_h = 2, shape_w = 1, px = [[(1, 2, 3)], [(7, 8, 9)]], c_contiguous = False\<rparr>"

definition example_image :: pil_image where
  "example_image =
     \<lparr>pil_height = 2, pil_width = 2,
      pil_pixels = [[(3, 2, 1), (6, 5, 4)], [(9, 8, 7), (12, 11, 10)]],
      pil_info = Map.empty\<rparr>"

definition example_metadata :: string where
  \<open>example_metadata = ''{"label": "cat"}''\<close>

text \<open>A file as a camera writes it: an EXIF block without the UserComment field.\<close>

definition camera_world :: "pil_image world" where
  "camera_world =
     \<lparr>files = [''camera.jpg'' \<mapsto> example_image\<lparr>pil_info := [''exif'' \<mapsto> PyBytes ''Exif:'']\<rparr>],
      encoder_calls = []\<rparr>"

definition example_rectangle :: Rectangle where
  "example_rectangle = \<lparr>x0 = 0, y0 = 0, x1 = 0, y1 = 1\<rparr>"

definition example_img :: "string Img" where
  "example_img =
     \<lparr>source = Ndarray example_array, itype = RGB, metadata = Some example_metadata,
      make_arrays_contiguous = True,
      img_size = \<lparr>size_w = 2, size_h = 2\<rparr>, img_h = 2, img_w = 2\<rparr>"

definition example_pil_img :: "string Img" where
  "example_pil_img =
     \<lparr>source = PILImage example_image, itype = PIL, metadata = None,
      make_arrays_contiguous = True,
      img_size = \<lparr>size_w = 2, size_h = 2\<rparr>, img_h = 2, img_w = 2\<rparr>"

section \<open>Basic facts\<close>

lemma bind_err_Inl [simp]: "bind_err (Inl e) f = Inl e"
  by (simp add: bind_err_def)

lemma bind_err_Inr [simp]: "bind_err (Inr x) f = f x"
  by (simp add: bind_err_def)


lemma as_ndarray_Ndarray [simp]: "as_ndarray (Ndarray a) = Inr a"
  by (simp add: as_ndarray_def)


lemma as_image_PILImage [simp]: "as_image (PILImage im) = Inr im"
  by (simp add: as_image_def)

lemma as_image_eq_Inr: "as_image s = Inr im \<longleftrightarrow> s = PILImage im"
  by (cases s) (simp_all add: as_image_def)

lemma swap_channels_twice [simp]: "swap_channels (swap_channels p) = p"
  by (simp add: swap_channels_def split: prod.splits)


lemma map_swap_twice [simp]: "map (map swap_channels) (map (map swap_channels) rows) = rows"
  by (induction rows) (simp_all add: comp_def)

lemma cvtColor_any:
  "cvtColor a c =
     \<lparr>shape_h = shape_h a, shape_w = shape_w a,
      px = map (map swap_channels) (px a), c_contiguous = True\<rparr>"
  by (cases c) (simp_all add: cvtColor_def)

lemma ascontiguousarray_cvtColor [simp]: "ascontiguousarray (cvtColor a c) = cvtColor a c"
  by (simp add: cvtColor_any ascontiguousarray_def)

lemma ascontiguousarray_fields [simp]:
  "px (ascontiguousarray a) = px a"
  "shape_h (ascontiguousarray a) = shape_h a"
  "shape_w (ascontiguousarray a) = shape_w a"
  by (simp_all add: ascontiguousarray_def)

lemma ndarray_copy_fields [simp]:
  "px (ndarray_copy a) = px a"
  "shape_h (ndarray_copy a) = shape_h a"
  "shape_w (ndarray_copy a) = shape_w a"
  by (simp_all add: ndarray_copy_def)

subsection \<open>Construction\<close>

lemma Img_init_Ndarray:
  "ity \<noteq> PIL \<Longrightarrow>
   Img_init (Ndarray a) ity meta mac =
     Inr \<lparr>source = Ndarray a, itype = ity, metadata = meta, make_arrays_contiguous = mac,
          img_size = \<lparr>size_w = shape_w a, size_h = shape_h a\<rparr>,
          img_h = shape_h a, img_w = shape_w a\<rparr>"
  by (simp add: Img_init_def Img_get_size_def Let_def)

lemma Img_init_PILImage:
  "Img_init (PILImage im) PIL meta mac =
     Inr \<lparr>source = PILImage im, itype = PIL, metadata = meta, make_arrays_contiguous = mac,
          img_size = \<lparr>size_w = pil_width im, size_h = pil_height im\<rparr>,
          img_h = pil_height im, img_w = pil_width im\<rparr>"
  by (simp add: Img_init_def Img_get_size_def Let_def)

lemma Img_init_Inr_D:
  "Img_init src ity meta mac = Inr self \<Longrightarrow>
   source self = src \<and> itype self = ity \<and> metadata self = meta
   \<and> make_arrays_contiguous self = mac
   \<and> (if ity = PIL
      then (\<exists>im. src = PILImage im \<and> img_w self = pil_width im \<and> img_h self = pil_height im)
      else (\<exists>a. src = Ndarray a \<and> img_w self = shape_w a \<and> img_h self = shape_h a))"
  by (cases src; cases "ity = PIL")
     (auto simp: Img_init_def Img_get_size_def Let_def split: if_splits)


subsection \<open>Converters\<close>



subsection \<open>Saving and opening\<close>








lemma open_without_exif_block:
  assumes "is_Path_or_str path"
    and "Image_open env wld (str_path path) = Inr im"
    and "pil_info im ''exif'' = None"
  shows "\<exists>img. Img_open env wld path ity True = Inr img \<and> metadata img = None"
  using assms
  by (cases ity) (simp_all add: Img_open_def Let_def Img_init_Ndarray Img_init_PILImage)

subsection \<open>Cropping\<close>

lemma slice_indices_in_bounds:
  "0 \<le> lo \<Longrightarrow> lo \<le> hi \<Longrightarrow> hi \<le> int n \<Longrightarrow> slice_indices lo hi n = (nat lo, nat hi)"
  by (auto simp: slice_indices_def Let_def)

lemma slice_array_shape:
  assumes "0 \<le> x0 r" "x0 r \<le> x1 r" "x1 r < int (shape_w a)"
    and "0 \<le> y0 r" "y0 r \<le> y1 r" "y1 r < int (shape_h a)"
  shows "int (shape_w (slice_array r a)) = x1 r - x0 r + 1"
    and "int (shape_h (slice_array r a)) = y1 r - y0 r + 1"
  using assms by (simp_all add: slice_array_def slice_indices_in_bounds)

lemma Image_crop_ordered:
  assumes "left \<le> right" "upper \<le> lower"
  shows "\<exists>im'. Image_crop im (left, upper, right, lower) = Inr im'
           \<and> int (pil_width im') = right - left \<and> int (pil_height im') = lower - upper"
  using assms by (simp add: Image_crop_def)

subsection \<open>The concrete collaborators\<close>

lemma ref_fields [simp]:
  "json_dumps ref_collaborators = ref_json_dumps"
  "json_loads ref_collaborators = ref_json_loads"
  "piexif_dump ref_collaborators = ref_piexif_dump"
  "piexif_load ref_collaborators = ref_piexif_load"
  "pil_encode ref_collaborators = ref_pil_encode"
  "pil_decode ref_collaborators = ref_pil_decode"
  "cv2_encode ref_collaborators = ref_cv2_encode"
  "cv2_decode ref_collaborators = ref_cv2_decode"
  by (simp_all add: ref_collaborators_def)



lemma example_img_init:
  "Img_init (Ndarray example_array) RGB (Some example_metadata) True = Inr example_img"
  by (simp add: Img_init_Ndarray example_img_def example_array_def)

lemma example_pil_img_init:
  "Img_init (PILImage example_image) PIL None True = Inr example_pil_img"
  by (simp add: Img_init_PILImage example_pil_img_def example_image_def)

section \<open>The properties\<close>

subsection \<open>Metadata\<close>



text \<open>
  C3 (files without the metadata field). Opening with \<open>load_metadata = True\<close> a file
  that PIL decodes and whose EXIF block has no UserComment entry: \<^verbatim>\<open>open\<close> subscripts
  the \<open>Exif\<close> dictionary with the tag, so the call ends in \<^verbatim>\<open>KeyError\<close> and returns no
  image. (A file without any EXIF block is opened with \<open>metadata = None\<close>, see
  \<open>open_without_exif_block\<close>.)
\<close>

theorem open_without_UserComment_raises:
  assumes "is_Path_or_str path"
    and "Image_open env wld (str_path path) = Inr im"
    and "pil_info im ''exif'' = Some (PyBytes b)"
    and "piexif_load env b = Inr d"
    and "map_of d ''Exif'' = Some ifd"
    and "map_of ifd ExifIFD_UserComment = None"
  shows "Img_open env wld path ity True = Inl (KeyError ''37510'')"
  using assms by (simp add: Img_open_def Let_def piexif_load_value_def dict_getitem_def)

theorem open_without_UserComment_raises_witness:
  "Img_open ref_collaborators camera_world (Str ''camera.jpg'') RGB True
     = Inl (KeyError ''37510'')"
proof (rule open_without_UserComment_raises
    [where im = "example_image\<lparr>pil_info := [''exif'' \<mapsto> PyBytes ''Exif:'']\<rparr>"
       and b = "''Exif:''" and d = "[(''0th'', []), (''Exif'', []), (''GPS'', [])]"
       and ifd = "[]"])
  show "is_Path_or_str (Str ''camera.jpg'')"
    by simp
  show "Image_open ref_collaborators camera_world (str_path (Str ''camera.jpg''))
        = Inr (example_image\<lparr>pil_info := [''exif'' \<mapsto> PyBytes ''Exif:'']\<rparr>)"
    by (simp add: Image_open_def camera_world_def ref_pil_decode_def)
  show "pil_info (example_image\<lparr>pil_info := [''exif'' \<mapsto> PyBytes ''Exif:'']\<rparr>) ''exif''
        = Some (PyBytes ''Exif:'')"
    by simp
  show "piexif_load ref_collaborators ''Exif:'' = Inr [(''0th'', []), (''Exif'', []), (''GPS'', [])]"
    by (simp add: ref_piexif_load_def)
  show "map_of [(''0th'', []), (''Exif'', []), (''GPS'', [])] ''Exif'' = Some []"
    by simp
  show "map_of [] ExifIFD_UserComment = None"
    by simp
qed

subsection \<open>Construction and conversion\<close>

text \<open>
  C2 (contiguity after construction). Constructing from a BGR buffer that is not
  contiguous, with \<open>make_arrays_contiguous = True\<close>: \<^verbatim>\<open>__init__\<close> has assigned
  \<^verbatim>\<open>self.source\<close> before it reaches the contiguity branch, and the contiguous copy is
  bound to the local name only. The constructed image stores the buffer it was given,
  which is not contiguous.
\<close>

theorem init_keeps_noncontiguous_source:
  "Img_init (Ndarray example_view) BGR (None :: string option) True =
     Inr \<lparr>source = Ndarray example_view, itype = BGR, metadata = None,
          make_arrays_contiguous = True,
          img_size = \<lparr>size_w = 1, size_h = 2\<rparr>, img_h = 2, img_w = 1\<rparr>
   \<and> \<not> c_contiguous example_view"
  by (simp add: Img_init_def Img_get_size_def Let_def as_ndarray_def example_view_def)



text \<open>
  C5 (identity conversion). For an image whose representation is already the requested
  one, \<^verbatim>\<open>rgb\<close>, \<^verbatim>\<open>bgr\<close> or \<^verbatim>\<open>pil\<close> returns the pixels and the dimensions of the stored
  source, for either value of \<open>make_arrays_contiguous\<close>. The converters are functions
  of the receiver and return nothing but the buffer or object: they assign no attribute.
\<close>

theorem identity_conversion_noop:
  assumes "Img_init src ity meta mac = Inr self"
  shows "(ity = RGB \<longrightarrow>
            (\<exists>a r. source self = Ndarray a \<and> Img_rgb self = Inr r \<and> px r = px a
                   \<and> shape_h r = shape_h a \<and> shape_w r = shape_w a))
       \<and> (ity = BGR \<longrightarrow>
            (\<exists>a r. source self = Ndarray a \<and> Img_bgr self = Inr r \<and> px r = px a
                   \<and> shape_h r = shape_h a \<and> shape_w r = shape_w a))
       \<and> (ity = PIL \<longrightarrow> (\<exists>im. source self = PILImage im \<and> Img_pil self = Inr im))"
  using Img_init_Inr_D [OF assms]
  by (cases ity) (auto simp: Img_rgb_def Img_bgr_def Img_pil_def)

theorem identity_conversion_noop_witness:
  "\<exists>a r. source example_img = Ndarray a \<and> Img_rgb example_img = Inr r \<and> px r = px a
         \<and> shape_h r = shape_h a \<and> shape_w r = shape_w a"
  using identity_conversion_noop [OF example_img_init] by blast

subsection \<open>Saving\<close>





text \<open>
  C10 (options on the buffer path). When metadata is not effectively saved and the
  representation is RGB or BGR, \<^verbatim>\<open>save\<close> does not look at the caller's encoder options:
  the call has the result of the same call without options, which is that of
  \<^verbatim>\<open>cv2.imwrite\<close> on the path and the buffer alone. So no \<open>optimize\<close> default is added,
  and an \<open>exif\<close> option raises no conflict.
\<close>

theorem save_buffer_ignores_options:
  assumes "\<not> (sm \<and> metadata self \<noteq> None)"
    and "itype self = RGB \<or> itype self = BGR"
  shows "Img_save env self path sm kw wld = Img_save env self path sm Map.empty wld
       \<and> (is_Path_or_str path \<longrightarrow>
            (\<forall>a. source self = Ndarray a \<longrightarrow>
               Img_save env self path sm kw wld =
                 imwrite env (str_path path)
                   (if itype self = RGB then cvtColor a COLOR_RGB2BGR else a) wld))"
  using assms by (auto simp: Img_save_def Let_def)

theorem save_buffer_ignores_options_witness:
  "Img_save ref_collaborators example_img (Str ''cat.jpg'') False
     [''exif'' \<mapsto> PyBytes ''Exif:''] empty_world
   = Img_save ref_collaborators example_img (Str ''cat.jpg'') False Map.empty empty_world
   \<and> Img_save ref_collaborators example_img (Str ''cat.jpg'') False
       [''exif'' \<mapsto> PyBytes ''Exif:''] empty_world
     = imwrite ref_collaborators ''cat.jpg'' (cvtColor example_array COLOR_RGB2BGR) empty_world"
proof -
  have h1: "\<not> (False \<and> metadata example_img \<noteq> None)"
    by simp
  have h2: "itype example_img = RGB \<or> itype example_img = BGR"
    by (simp add: example_img_def)
  have h3: "source example_img = Ndarray example_array" "itype example_img = RGB"
    "is_Path_or_str (Str ''cat.jpg'')"
    by (simp_all add: example_img_def)
  note t = save_buffer_ignores_options
    [where self = example_img and sm = False and env = ref_collaborators
       and path = "Str ''cat.jpg''" and kw = "[''exif'' \<mapsto> PyBytes ''Exif:'']"
       and wld = empty_world, OF h1 h2]
  from t have a: "Img_save ref_collaborators example_img (Str ''cat.jpg'') False
     [''exif'' \<mapsto> PyBytes ''Exif:''] empty_world
   = Img_save ref_collaborators example_img (Str ''cat.jpg'') False Map.empty empty_world"
    by (rule conjunct1)
  from t h3 have b: "Img_save ref_collaborators example_img (Str ''cat.jpg'') False
       [''exif'' \<mapsto> PyBytes ''Exif:''] empty_world
     = imwrite ref_collaborators (str_path (Str ''cat.jpg''))
         (if itype example_img = RGB then cvtColor example_array COLOR_RGB2BGR
          else example_array) empty_world"
    by blast
  have c: "imwrite ref_collaborators (str_path (Str ''cat.jpg''))
         (if itype example_img = RGB then cvtColor example_array COLOR_RGB2BGR
          else example_array) empty_world
      = imwrite ref_collaborators ''cat.jpg'' (cvtColor example_array COLOR_RGB2BGR) empty_world"
    by (simp add: h3)
  from a b c show ?thesis
    by (intro conjI) (rule a, rule trans [OF b c])
qed

subsection \<open>Cropping\<close>

text \<open>
  C8 (dimensions of a crop). For a constructed image and a rectangle inside it, with
  \<open>copy\<close> set whenever the representation is PIL, \<^verbatim>\<open>crop\<close> returns an image of width
  \<open>x1 - x0 + 1\<close> and height \<open>y1 - y0 + 1\<close> that has the representation and the metadata
  of the receiver.
\<close>

theorem crop_dimensions:
  assumes init: "Img_init src ity meta mac = Inr self"
    and x: "0 \<le> x0 r" "x0 r \<le> x1 r" "x1 r < int (img_w self)"
    and y: "0 \<le> y0 r" "y0 r \<le> y1 r" "y1 r < int (img_h self)"
    and copy: "copy \<or> ity \<noteq> PIL"
  shows "\<exists>img'. Img_crop self r copy = Inr img'
           \<and> int (img_w img') = x1 r - x0 r + 1 \<and> int (img_h img') = y1 r - y0 r + 1
           \<and> itype img' = itype self \<and> metadata img' = metadata self"
proof (cases "ity = PIL")
  case True
  with Img_init_Inr_D [OF init] obtain im
    where s: "source self = PILImage im" "itype self = PIL"
    by auto
  from True copy have c: "copy"
    by simp
  from x y
    Image_crop_ordered [where left = "x0 r" and right = "x1 r + 1" and upper = "y0 r"
      and lower = "y1 r + 1" and im = im]
  obtain im' where crop: "Image_crop im (x0 r, y0 r, x1 r + 1, y1 r + 1) = Inr im'"
    and dims: "int (pil_width im') = x1 r + 1 - x0 r" "int (pil_height im') = y1 r + 1 - y0 r"
    by auto
  from dims show ?thesis
    by (simp add: Img_crop_def s c crop Img_init_PILImage)
next
  case False
  with Img_init_Inr_D [OF init] obtain a
    where s: "source self = Ndarray a" "itype self = ity"
      "img_w self = shape_w a" "img_h self = shape_h a"
    by auto
  from x y s
  have dims: "int (shape_w (slice_array r a)) = x1 r - x0 r + 1"
    "int (shape_h (slice_array r a)) = y1 r - y0 r + 1"
    by (simp_all add: slice_array_shape)
  from dims False show ?thesis
    by (simp add: Img_crop_def Let_def s Img_init_Ndarray)
qed

theorem crop_dimensions_witness:
  "\<exists>img'. Img_crop example_img example_rectangle False = Inr img'
         \<and> int (img_w img') = 1 \<and> int (img_h img') = 2
         \<and> itype img' = RGB \<and> metadata img' = Some example_metadata"
proof -
  have r: "x0 example_rectangle = 0" "y0 example_rectangle = 0"
    "x1 example_rectangle = 0" "y1 example_rectangle = 1"
    by (simp_all add: example_rectangle_def)
  have i: "img_w example_img = 2" "img_h example_img = 2" "itype example_img = RGB"
    "metadata example_img = Some example_metadata"
    by (simp_all add: example_img_def)
  have "\<exists>img'. Img_crop example_img example_rectangle False = Inr img'
           \<and> int (img_w img') = x1 example_rectangle - x0 example_rectangle + 1
           \<and> int (img_h img') = y1 example_rectangle - y0 example_rectangle + 1
           \<and> itype img' = itype example_img \<and> metadata img' = metadata example_img"
    by (rule crop_dimensions [OF example_img_init]) (simp_all add: r i)
  then show ?thesis
    by (simp add: r i)
qed

text \<open>
  C9 (cropping a PIL image needs \<open>copy\<close>). On an image of PIL representation,
  \<^verbatim>\<open>crop\<close> with \<open>copy = False\<close> ends in \<^verbatim>\<open>RuntimeError\<close> and returns no image; with
  \<open>copy = True\<close> it returns an image, for every rectangle whose box
  \<open>(x0, y0, x1 + 1, y1 + 1)\<close> PIL accepts.
\<close>

theorem crop_pil_requires_copy:
  assumes init: "Img_init src PIL meta mac = Inr self"
  shows "Img_crop self r False = Inl (RuntimeError ''PIL crops are always copys. I think?'')
       \<and> (x0 r \<le> x1 r + 1 \<longrightarrow> y0 r \<le> y1 r + 1 \<longrightarrow> (\<exists>img'. Img_crop self r True = Inr img'))"
proof -
  from Img_init_Inr_D [OF init] obtain im
    where s: "source self = PILImage im" "itype self = PIL"
    by auto
  have "Img_crop self r False = Inl (RuntimeError ''PIL crops are always copys. I think?'')"
    by (simp add: Img_crop_def s)
  moreover have "\<exists>img'. Img_crop self r True = Inr img'"
    if "x0 r \<le> x1 r + 1" "y0 r \<le> y1 r + 1"
  proof -
    from Image_crop_ordered [OF that, of im] obtain im'
      where "Image_crop im (x0 r, y0 r, x1 r + 1, y1 r + 1) = Inr im'"
      by blast
    then show ?thesis
      by (simp add: Img_crop_def s Img_init_PILImage)
  qed
  ultimately show ?thesis
    by blast
qed

theorem crop_pil_requires_copy_witness:
  "Img_crop example_pil_img example_rectangle False
     = Inl (RuntimeError ''PIL crops are always copys. I think?'')
   \<and> (\<exists>img'. Img_crop example_pil_img example_rectangle True = Inr img')"
  using crop_pil_requires_copy [OF example_pil_img_init, of example_rectangle]
  by (simp add: example_rectangle_def)

end
